theory Spec2Isabelle
  imports Main "HOL-Library.Word"
begin

unbundle bit_operations_syntax

section \<open>The tray client of src/x11/tray\_client.cpp\<close>

text \<open>
  A \<open>tray_client\<close> owns one embedder (wrapper) window and the icon (client) window that is
  reparented into it. Every method talks to the X server through \<open>m_connection\<close>. The
  model threads the connection explicitly: it records the requests in the order in which
  they are issued, and an environment says which checked request is answered with an error
  (the \<open>_checked\<close> calls throw then) and what the server replies to a query.
  Calls to the logger (\<open>m_log.trace\<close>, \<open>m_log.err\<close>) have no effect on the entity or on
  the connection and are left out.
\<close>

subsection \<open>Handles and constants of xcb and cairo\<close>

type_synonym xcb_window_t = "32 word"
type_synonym xcb_pixmap_t = "32 word"
type_synonym xcb_gcontext_t = "32 word"
type_synonym xcb_visualid_t = "32 word"
type_synonym xcb_colormap_t = "32 word"

definition XCB_NONE :: "32 word" where
  "XCB_NONE = 0"

definition XCB_WINDOW_CLASS_INPUT_OUTPUT :: "16 word" where
  "XCB_WINDOW_CLASS_INPUT_OUTPUT = 1"

definition XCB_BACKING_STORE_WHEN_MAPPED :: "32 word" where
  "XCB_BACKING_STORE_WHEN_MAPPED = 1"

definition XCB_EVENT_MASK_EXPOSURE :: "32 word" where
  "XCB_EVENT_MASK_EXPOSURE = 32768"

definition XCB_EVENT_MASK_STRUCTURE_NOTIFY :: "32 word" where
  "XCB_EVENT_MASK_STRUCTURE_NOTIFY = 131072"

definition XCB_EVENT_MASK_SUBSTRUCTURE_REDIRECT :: "32 word" where
  "XCB_EVENT_MASK_SUBSTRUCTURE_REDIRECT = 1048576"

definition XCB_EVENT_MASK_PROPERTY_CHANGE :: "32 word" where
  "XCB_EVENT_MASK_PROPERTY_CHANGE = 4194304"

definition XCB_SET_MODE_INSERT :: "8 word" where
  "XCB_SET_MODE_INSERT = 0"

definition XCB_CONFIGURE_NOTIFY :: "8 word" where
  "XCB_CONFIGURE_NOTIFY = 22"

datatype cairo_operator_t = CAIRO_OPERATOR_SOURCE | CAIRO_OPERATOR_OVER

subsection \<open>Data\<close>

text \<open>
  \<open>struct size { unsigned int w; unsigned int h; }\<close> and
  \<open>struct position { int x; int y; }\<close>. The fields carry a prefix, since a record field is
  a constant of the theory and \<open>w\<close>, \<open>h\<close>, \<open>x\<close>, \<open>y\<close> are wanted as variables.
  An \<open>int\<close> is a 32-bit word in two's complement (\<open>sint\<close> reads it); the methods only
  compare and pass on such values.
\<close>

record size_wh =
  size_w :: "32 word"
  size_h :: "32 word"

record position =
  pos_x :: "32 word"
  pos_y :: "32 word"

text \<open>
  Modelled from the spec: \<open>xembed::info\<close> is declared in x11/xembed.hpp, which is not among
  the sources. The spec gives the cached embedding-protocol info a version and a mapped bit,
  read by the accessors \<open>get_version\<close> and \<open>is_mapped\<close>.
\<close>

record xembed_info =
  info_version :: "32 word"
  info_mapped :: bool

definition get_version :: "xembed_info \<Rightarrow> 32 word" where
  "get_version i = info_version i"

definition is_mapped :: "xembed_info \<Rightarrow> bool" where
  "is_mapped i = info_mapped i"

text \<open>\<open>xcb_rectangle_t\<close>: 16-bit origin (\<open>int16_t\<close>) and 16-bit extent (\<open>uint16_t\<close>).\<close>

record xcb_rectangle_t =
  rect_x :: "16 word"
  rect_y :: "16 word"
  rect_width :: "16 word"
  rect_height :: "16 word"

text \<open>A background slice is owned by the background manager; the client holds a handle.\<close>

type_synonym bg_slice = nat

text \<open>The parameters that the constructor hands to the \<open>winspec\<close> builder, in its order.\<close>

record winspec =
  cw_size_w :: "32 word"
  cw_size_h :: "32 word"
  cw_pos_x :: "32 word"
  cw_pos_y :: "32 word"
  cw_depth :: "8 word"
  cw_visual :: xcb_visualid_t
  cw_parent :: xcb_window_t
  cw_class :: "16 word"
  cw_params_border_pixel :: "32 word"
  cw_params_backing_store :: "32 word"
  cw_params_save_under :: bool
  cw_params_event_mask :: "32 word"
  cw_params_colormap :: xcb_colormap_t
  cw_flush :: bool

text \<open>
  The fields that \<open>set_position\<close> adds to \<open>xcb_params_configure_window_t\<close> with
  \<open>XCB_AUX_ADD_PARAM\<close> before each \<open>configure_window_checked\<close>: the mask has exactly these
  four bits and \<open>pack_values\<close> sends exactly these four values.
\<close>

record configure_params =
  cfg_width :: "32 word"
  cfg_height :: "32 word"
  cfg_x :: "32 word"
  cfg_y :: "32 word"

text \<open>The fields of \<open>xcb_configure_notify_event_t\<close> that \<open>configure_notify\<close> assigns.\<close>

record configure_notify_event =
  ev_response_type :: "8 word"
  ev_event :: xcb_window_t
  ev_window :: xcb_window_t
  ev_override_redirect :: bool
  ev_above_sibling :: xcb_window_t
  ev_x :: "16 word"
  ev_y :: "16 word"
  ev_width :: "16 word"
  ev_height :: "16 word"
  ev_border_width :: "16 word"

datatype cw_attribute = BackPixmap xcb_pixmap_t | EventMask "32 word"

datatype cairo_source = SliceSurface bg_slice | Colour "32 word"

text \<open>
  What leaves the entity, in the order of the calls: requests on the connection, calls into
  the xembed module and the background manager, and drawing on the cairo context. The
  extents of xcb's create-pixmap and clear-area requests are \<open>uint16_t\<close>, and the origin of
  clear-area is \<open>int16_t\<close>: an \<open>unsigned int\<close> passed there is converted.
\<close>

datatype request =
    GetGeometry xcb_window_t
  | GetWindowAttributes xcb_window_t
  | CreateWindow xcb_window_t winspec
  | CreatePixmap "8 word" xcb_pixmap_t xcb_window_t "16 word" "16 word"
  | ChangeWindowAttributes xcb_window_t "cw_attribute list"
  | CreateGC xcb_gcontext_t xcb_pixmap_t "32 word"
  | ConfigureWindow xcb_window_t configure_params
  | MapWindow xcb_window_t
  | UnmapWindow xcb_window_t
  | ReparentWindow xcb_window_t xcb_window_t "32 word" "32 word"
  | ChangeSaveSet "8 word" xcb_window_t
  | ClearArea "8 word" xcb_window_t "16 word" "16 word" "16 word" "16 word"
  | SendEvent bool xcb_window_t "32 word" configure_notify_event
  | DestroyWindow xcb_window_t
  | Flush
  | XembedQuery xcb_window_t
  | XembedUnembed xcb_window_t xcb_window_t
  | XembedNotifyEmbedded xcb_window_t xcb_window_t "32 word"
  | Observe xcb_rectangle_t xcb_window_t
  | CairoClear
  | CairoOperator cairo_operator_t
  | CairoSource cairo_source
  | CairoPaint
  | SurfaceFlush

datatype error =
    RequestFailed request
  | RuntimeError string
  | NullPointer

record geometry_reply =
  geom_depth :: "8 word"
  geom_width :: "16 word"
  geom_height :: "16 word"

record attributes_reply =
  attr_visual :: xcb_visualid_t
  attr_colormap :: xcb_colormap_t

type_synonym xcb_visualtype_t = "32 word"

record xcb_surface =
  surf_pixmap :: xcb_pixmap_t
  surf_visual :: xcb_visualtype_t
  surf_w :: "32 word"
  surf_h :: "32 word"

datatype cairo_context = Context xcb_surface

text \<open>
  The members of \<open>tray_client\<close>. The logger, the connection and the background manager are
  references to collaborators and are not part of the record.
\<close>

record tray_client =
  m_name :: string
  m_client :: xcb_window_t
  m_wrapper :: xcb_window_t
  m_size :: size_wh
  m_desired_background :: "32 word"
  m_xembed_supported :: bool
  m_xembed :: xembed_info
  m_mapped :: bool
  m_hidden :: bool
  m_pos :: position
  m_surface :: xcb_surface
  m_context :: cairo_context
  m_bg_slice :: "bg_slice option"

text \<open>
  The default member initialisers of \<open>m_xembed_supported\<close>, \<open>m_xembed\<close>, \<open>m_mapped\<close>,
  \<open>m_hidden\<close> and \<open>m_pos\<close> are written in x11/tray\_client.hpp, which is not among the
  sources; the constructor takes them as a parameter.
\<close>

record member_defaults =
  d_xembed_supported :: bool
  d_xembed :: xembed_info
  d_mapped :: bool
  d_hidden :: bool
  d_pos :: position

subsection \<open>The connection and its environment\<close>

text \<open>
  \<open>requests\<close> holds what has been issued so far, oldest first; \<open>ids_made\<close> counts the calls
  of \<open>generate_id\<close>. The environment answers from the history: \<open>fails\<close> says whether a
  request that reports errors is answered with one.
\<close>

record connection =
  requests :: "request list"
  ids_made :: nat

record xenv =
  fails :: "request list \<Rightarrow> request \<Rightarrow> bool"
  generate_id :: "nat \<Rightarrow> 32 word"
  get_geometry :: "request list \<Rightarrow> xcb_window_t \<Rightarrow> geometry_reply option"
  get_window_attributes :: "request list \<Rightarrow> xcb_window_t \<Rightarrow> attributes_reply option"
  visual_type_for_id :: "xcb_visualid_t \<Rightarrow> xcb_visualtype_t option"
  get_wm_name :: "xcb_window_t \<Rightarrow> string"
  id_string :: "xcb_window_t \<Rightarrow> string"
  root :: xcb_window_t
  black_pixel :: "32 word"
  xembed_query :: "request list \<Rightarrow> xcb_window_t \<Rightarrow> xembed_info \<Rightarrow> xembed_info \<times> bool"
  observe :: "request list \<Rightarrow> xcb_rectangle_t \<Rightarrow> xcb_window_t \<Rightarrow> bg_slice"

type_synonym action = "connection \<Rightarrow> error option \<times> connection"

definition issue :: "request \<Rightarrow> connection \<Rightarrow> connection" where
  "issue r c = c\<lparr>requests := requests c @ [r]\<rparr>"

text \<open>A \<open>_checked\<close> request: it throws when the server answers with an error.\<close>

definition checked :: "xenv \<Rightarrow> request \<Rightarrow> action" where
  "checked env r c =
     (if fails env (requests c) r then Some (RequestFailed r) else None, issue r c)"

text \<open>
  A request that is not checked (\<open>destroy_window\<close>, \<open>flush\<close>), a call of the background manager or
  a drawing call: nothing is reported back to the caller.
\<close>

definition send :: "request \<Rightarrow> action" where
  "send r c = (None, issue r c)"

text \<open>
  Statements in sequence: an exception thrown by one ends the body, and what had been
  issued before stays issued.
\<close>

fun seqs :: "action list \<Rightarrow> action" where
  "seqs [] c = (None, c)"
| "seqs (f # fs) c =
     (case f c of
        (Some e, c') \<Rightarrow> (Some e, c')
      | (None, c') \<Rightarrow> seqs fs c')"

subsection \<open>Accessors\<close>

definition name :: "xenv \<Rightarrow> tray_client \<Rightarrow> string" where
  "name env s = ''tray_client('' @ id_string env (m_client s) @ '', '' @ m_name s @ '')''"

definition width :: "tray_client \<Rightarrow> 32 word" where
  "width s = size_w (m_size s)"

definition height :: "tray_client \<Rightarrow> 32 word" where
  "height s = size_h (m_size s)"

definition embedder :: "tray_client \<Rightarrow> xcb_window_t" where
  "embedder s = m_wrapper s"

definition client :: "tray_client \<Rightarrow> xcb_window_t" where
  "client s = m_client s"


definition mapped :: "tray_client \<Rightarrow> bool" where
  "mapped s = m_mapped s"

text \<open>The setter \<open>mapped(bool state)\<close>.\<close>

definition mapped_set :: "bool \<Rightarrow> tray_client \<Rightarrow> tray_client" where
  "mapped_set state s = (if m_mapped s \<noteq> state then s\<lparr>m_mapped := state\<rparr> else s)"

definition hidden :: "bool \<Rightarrow> tray_client \<Rightarrow> tray_client" where
  "hidden state s = s\<lparr>m_hidden := state\<rparr>"

definition is_xembed_supported :: "tray_client \<Rightarrow> bool" where
  "is_xembed_supported s = m_xembed_supported s"

definition get_xembed :: "tray_client \<Rightarrow> xembed_info" where
  "get_xembed s = m_xembed s"

definition should_be_mapped :: "tray_client \<Rightarrow> bool" where
  "should_be_mapped s =
     (if m_hidden s then False
      else if is_xembed_supported s then is_mapped (m_xembed s)
      else True)"

subsection \<open>Requests of one window\<close>

definition clear_window :: "xenv \<Rightarrow> tray_client \<Rightarrow> action" where
  "clear_window env s =
     seqs [checked env (ClearArea 0 (embedder s) 0 0 (ucast (width s)) (ucast (height s))),
           checked env (ClearArea 1 (client s) 0 0 (ucast (width s)) (ucast (height s)))]"

definition update_client_attributes :: "xenv \<Rightarrow> tray_client \<Rightarrow> action" where
  "update_client_attributes env s =
     checked env (ChangeWindowAttributes (client s)
       [EventMask (XCB_EVENT_MASK_PROPERTY_CHANGE OR XCB_EVENT_MASK_STRUCTURE_NOTIFY)])"

definition reparent :: "xenv \<Rightarrow> tray_client \<Rightarrow> action" where
  "reparent env s = checked env (ReparentWindow (client s) (embedder s) 0 0)"

definition add_to_save_set :: "xenv \<Rightarrow> tray_client \<Rightarrow> action" where
  "add_to_save_set env s = checked env (ChangeSaveSet XCB_SET_MODE_INSERT (client s))"

definition configure_notify :: "xenv \<Rightarrow> tray_client \<Rightarrow> action" where
  "configure_notify env s =
     checked env (SendEvent False (client s) XCB_EVENT_MASK_STRUCTURE_NOTIFY
       \<lparr>ev_response_type = XCB_CONFIGURE_NOTIFY,
        ev_event = client s,
        ev_window = client s,
        ev_override_redirect = False,
        ev_above_sibling = 0,
        ev_x = 0,
        ev_y = 0,
        ev_width = ucast (size_w (m_size s)),
        ev_height = ucast (size_h (m_size s)),
        ev_border_width = 0\<rparr>)"

subsection \<open>The embedding protocol\<close>

text \<open>
  \<open>xembed::query\<close>, \<open>xembed::notify_embedded\<close> and \<open>xembed::unembed\<close> are defined in
  x11/xembed.cpp, which is not among the sources. Each is recorded as one call; whether it
  throws is left to the environment, and what \<open>query\<close> returns and writes to the info
  passed by reference is the environment's \<open>xembed_query\<close>.
\<close>

definition query_xembed ::
  "xenv \<Rightarrow> tray_client \<Rightarrow> connection \<Rightarrow> error option \<times> tray_client \<times> connection" where
  "query_xembed env s c =
     (let (info, supported) = xembed_query env (requests c) (m_client s) (m_xembed s)
      in case checked env (XembedQuery (m_client s)) c of
           (Some e, c') \<Rightarrow> (Some e, s\<lparr>m_xembed := info\<rparr>, c')
         | (None, c') \<Rightarrow> (None, s\<lparr>m_xembed := info, m_xembed_supported := supported\<rparr>, c'))"

definition notify_xembed :: "xenv \<Rightarrow> tray_client \<Rightarrow> action" where
  "notify_xembed env s c =
     (if is_xembed_supported s
      then checked env (XembedNotifyEmbedded (client s) (embedder s) (get_version (m_xembed s))) c
      else (None, c))"

subsection \<open>Visibility\<close>

definition ensure_state :: "xenv \<Rightarrow> tray_client \<Rightarrow> action" where
  "ensure_state env s c =
     (let new_state = should_be_mapped s
      in if new_state = m_mapped s then (None, c)
         else if new_state
           then seqs [checked env (MapWindow (embedder s)),
                      checked env (MapWindow (client s))] c
           else seqs [checked env (UnmapWindow (client s)),
                      checked env (UnmapWindow (embedder s))] c)"

subsection \<open>Background\<close>

text \<open>
  \<open>update_bg\<close> dereferences \<open>m_bg_slice\<close> after it has cleared the context and set the
  operator. With a null slice that is undefined behaviour in the source; the model ends
  the call there with the error \<open>NullPointer\<close>. The constructor sets the slice before the
  first call, and nothing resets it.
\<close>

definition update_bg :: "xenv \<Rightarrow> tray_client \<Rightarrow> action" where
  "update_bg env s =
     (case m_bg_slice s of
        None \<Rightarrow>
          seqs [send CairoClear,
                send (CairoOperator CAIRO_OPERATOR_SOURCE),
                (\<lambda>c. (Some NullPointer, c))]
      | Some sl \<Rightarrow>
          seqs [send CairoClear,
                send (CairoOperator CAIRO_OPERATOR_SOURCE),
                send (CairoSource (SliceSurface sl)),
                send CairoPaint,
                send (CairoOperator CAIRO_OPERATOR_OVER),
                send (CairoSource (Colour (m_desired_background s))),
                send CairoPaint,
                send SurfaceFlush,
                clear_window env s,
                send Flush])"

definition observe_rect :: "tray_client \<Rightarrow> xcb_rectangle_t" where
  "observe_rect s =
     \<lparr>rect_x = 0, rect_y = 0,
      rect_width = ucast (size_w (m_size s)),
      rect_height = ucast (size_h (m_size s))\<rparr>"

definition observe_background ::
  "xenv \<Rightarrow> tray_client \<Rightarrow> connection \<Rightarrow> error option \<times> tray_client \<times> connection" where
  "observe_background env s c =
     (let rect = observe_rect s;
          s' = s\<lparr>m_bg_slice := Some (observe env (requests c) rect (embedder s))\<rparr>;
          c' = issue (Observe rect (embedder s)) c
      in case update_bg env s' c' of (r, c'') \<Rightarrow> (r, s', c''))"

subsection \<open>Position\<close>

definition set_position ::
  "xenv \<Rightarrow> 32 word \<Rightarrow> 32 word \<Rightarrow> tray_client \<Rightarrow> connection
     \<Rightarrow> error option \<times> tray_client \<times> connection" where
  "set_position env x y s c =
     (let new_pos = \<lparr>pos_x = x, pos_y = y\<rparr>
      in if new_pos = m_pos s then (None, s, c)
         else
           let s' = s\<lparr>m_pos := new_pos\<rparr>
           in case checked env (ConfigureWindow (embedder s')
                     \<lparr>cfg_width = size_w (m_size s'), cfg_height = size_h (m_size s'),
                      cfg_x = x, cfg_y = y\<rparr>) c of
                (Some e, c1) \<Rightarrow> (Some e, s', c1)
              | (None, c1) \<Rightarrow>
                  (case checked env (ConfigureWindow (client s')
                          \<lparr>cfg_width = size_w (m_size s'), cfg_height = size_h (m_size s'),
                           cfg_x = 0, cfg_y = 0\<rparr>) c1 of
                     (Some e, c2) \<Rightarrow> (Some e, s', c2)
                   | (None, c2) \<Rightarrow> observe_background env s' c2))"

subsection \<open>Construction and destruction\<close>

text \<open>
  Modelled from the spec: the \<open>winspec\<close> builder is defined in x11/winspec.cpp, which is not
  among the sources. By the spec the constructor creates the container window as a child of
  the parent with the values handed over, and any request failure aborts construction: the
  builder takes a fresh id and issues one checked create-window request.
\<close>

definition winspec_create ::
  "xenv \<Rightarrow> winspec \<Rightarrow> connection \<Rightarrow> error option \<times> xcb_window_t \<times> connection" where
  "winspec_create env p c =
     (let wid = generate_id env (ids_made c);
          c1 = c\<lparr>ids_made := Suc (ids_made c)\<rparr>
      in case checked env (CreateWindow wid p) c1 of (r, c2) \<Rightarrow> (r, wid, c2))"

definition tray_client_ctor ::
  "xenv \<Rightarrow> member_defaults \<Rightarrow> xcb_window_t \<Rightarrow> xcb_window_t \<Rightarrow> size_wh \<Rightarrow> 32 word
     \<Rightarrow> connection \<Rightarrow> (error + tray_client) \<times> connection" where
  "tray_client_ctor env d parent win s desired_background c =
     (let c0 = issue (GetWindowAttributes win) (issue (GetGeometry win) c)
      in case get_geometry env (requests c) win of
        None \<Rightarrow> (Inl (RequestFailed (GetGeometry win)), c0)
      | Some geom \<Rightarrow>
     (case get_window_attributes env (requests c) win of
        None \<Rightarrow> (Inl (RequestFailed (GetWindowAttributes win)), c0)
      | Some attrs \<Rightarrow>
     (let client_depth = geom_depth geom;
          client_visual = attr_visual attrs;
          client_colormap = attr_colormap attrs
      in case winspec_create env
           \<lparr>cw_size_w = size_w s, cw_size_h = size_h s,
            cw_pos_x = 0, cw_pos_y = 0,
            cw_depth = client_depth,
            cw_visual = client_visual,
            cw_parent = parent,
            cw_class = XCB_WINDOW_CLASS_INPUT_OUTPUT,
            cw_params_border_pixel = black_pixel env,
            cw_params_backing_store = XCB_BACKING_STORE_WHEN_MAPPED,
            cw_params_save_under = True,
            cw_params_event_mask =
              XCB_EVENT_MASK_SUBSTRUCTURE_REDIRECT OR XCB_EVENT_MASK_PROPERTY_CHANGE
              OR XCB_EVENT_MASK_STRUCTURE_NOTIFY OR XCB_EVENT_MASK_EXPOSURE,
            cw_params_colormap = client_colormap,
            cw_flush = True\<rparr> c0 of
        (Some e, wrapper, c1) \<Rightarrow> (Inl e, c1)
      | (None, wrapper, c1) \<Rightarrow>
     (let pixmap = generate_id env (ids_made c1);
          c2 = c1\<lparr>ids_made := Suc (ids_made c1)\<rparr>
      in case checked env
           (CreatePixmap client_depth pixmap wrapper (ucast (size_w s)) (ucast (size_h s))) c2 of
        (Some e, c3) \<Rightarrow> (Inl e, c3)
      | (None, c3) \<Rightarrow>
     (case checked env (ChangeWindowAttributes wrapper [BackPixmap pixmap]) c3 of
        (Some e, c4) \<Rightarrow> (Inl e, c4)
      | (None, c4) \<Rightarrow>
     (let gc = generate_id env (ids_made c4);
          c5 = c4\<lparr>ids_made := Suc (ids_made c4)\<rparr>
      in case checked env (CreateGC gc pixmap 1) c5 of
        (Some e, c6) \<Rightarrow> (Inl e, c6)
      | (None, c6) \<Rightarrow>
     (case visual_type_for_id env client_visual of
        None \<Rightarrow> (Inl (RuntimeError ''Failed to get root visual for tray background''), c6)
      | Some visual \<Rightarrow>
     (let surface = \<lparr>surf_pixmap = pixmap, surf_visual = visual,
                     surf_w = size_w s, surf_h = size_h s\<rparr>;
          this = \<lparr>m_name = get_wm_name env win,
                  m_client = win,
                  m_wrapper = wrapper,
                  m_size = s,
                  m_desired_background = desired_background,
                  m_xembed_supported = d_xembed_supported d,
                  m_xembed = d_xembed d,
                  m_mapped = d_mapped d,
                  m_hidden = d_hidden d,
                  m_pos = d_pos d,
                  m_surface = surface,
                  m_context = Context surface,
                  m_bg_slice = None\<rparr>
      in case observe_background env this c6 of
        (Some e, this', c7) \<Rightarrow> (Inl e, c7)
      | (None, this', c7) \<Rightarrow> (Inr this', c7)))))))))"

text \<open>
  The destructor has no handler of its own: an exception that leaves \<open>xembed::unembed\<close>
  leaves the destructor, and \<open>destroy_window\<close> is then not reached.
\<close>

definition tray_client_dtor :: "xenv \<Rightarrow> tray_client \<Rightarrow> action" where
  "tray_client_dtor env s =
     seqs [(\<lambda>c. if m_client s \<noteq> XCB_NONE
                then checked env (XembedUnembed (m_client s) (root env)) c
                else (None, c)),
           (\<lambda>c. if m_wrapper s \<noteq> XCB_NONE
                then send (DestroyWindow (m_wrapper s)) c
                else (None, c))]"

subsection \<open>The interface as operations\<close>

text \<open>
  One constructor per method of the class. The owner of the entity catches what a call
  throws and goes on with the next call, so a run does not stop at an error.
\<close>

datatype operation =
    OpName | OpWidth | OpHeight | OpMatch xcb_window_t | OpMapped | OpShouldBeMapped
  | OpEmbedder | OpClient | OpIsXembedSupported | OpGetXembed
  | OpClearWindow | OpUpdateClientAttributes | OpReparent
  | OpSetMapped bool | OpSetHidden bool
  | OpQueryXembed | OpNotifyXembed | OpAddToSaveSet
  | OpEnsureState | OpSetPosition "32 word" "32 word" | OpConfigureNotify
  | OpUpdateBg | OpObserveBackground

definition lift :: "action \<Rightarrow> tray_client \<Rightarrow> connection
    \<Rightarrow> error option \<times> tray_client \<times> connection" where
  "lift f s c = (case f c of (r, c') \<Rightarrow> (r, s, c'))"

fun step :: "xenv \<Rightarrow> operation \<Rightarrow> tray_client \<times> connection
    \<Rightarrow> error option \<times> tray_client \<times> connection" where
  "step env OpClearWindow (s, c) = lift (clear_window env s) s c"
| "step env OpUpdateClientAttributes (s, c) = lift (update_client_attributes env s) s c"
| "step env OpReparent (s, c) = lift (reparent env s) s c"
| "step env (OpSetMapped b) (s, c) = (None, mapped_set b s, c)"
| "step env (OpSetHidden b) (s, c) = (None, hidden b s, c)"
| "step env OpQueryXembed (s, c) = query_xembed env s c"
| "step env OpNotifyXembed (s, c) = lift (notify_xembed env s) s c"
| "step env OpAddToSaveSet (s, c) = lift (add_to_save_set env s) s c"
| "step env OpEnsureState (s, c) = lift (ensure_state env s) s c"
| "step env (OpSetPosition x y) (s, c) = set_position env x y s c"
| "step env OpConfigureNotify (s, c) = lift (configure_notify env s) s c"
| "step env OpUpdateBg (s, c) = lift (update_bg env s) s c"
| "step env OpObserveBackground (s, c) = observe_background env s c"
| "step env _ (s, c) = (None, s, c)"

fun run :: "xenv \<Rightarrow> operation list \<Rightarrow> tray_client \<times> connection
    \<Rightarrow> tray_client \<times> connection" where
  "run env [] sc = sc"
| "run env (op # ops) sc = run env ops (snd (step env op sc))"

subsection \<open>Reading the issued requests\<close>

text \<open>
  The geometry that a request gives to a window: the window, its width and height and its
  position. Only creating and configuring a window do so.
\<close>

fun geometry_of :: "request \<Rightarrow> (xcb_window_t \<times> 32 word \<times> 32 word \<times> 32 word \<times> 32 word) option" where
  "geometry_of (CreateWindow wid p) = Some (wid, cw_size_w p, cw_size_h p, cw_pos_x p, cw_pos_y p)"
| "geometry_of (ConfigureWindow win g) = Some (win, cfg_width g, cfg_height g, cfg_x g, cfg_y g)"
| "geometry_of _ = None"

definition geometries ::
  "request list \<Rightarrow> (xcb_window_t \<times> 32 word \<times> 32 word \<times> 32 word \<times> 32 word) list" where
  "geometries rs = List.map_filter geometry_of rs"

text \<open>
  The two requests that \<open>set_position(x, y)\<close> issues with \<open>configure_window_checked\<close>: the
  first for the embedder at the new position, the second for the client at the origin of
  the embedder.
\<close>

definition configure_embedder :: "tray_client \<Rightarrow> 32 word \<Rightarrow> 32 word \<Rightarrow> request" where
  "configure_embedder s x y =
     ConfigureWindow (embedder s)
       \<lparr>cfg_width = size_w (m_size s), cfg_height = size_h (m_size s), cfg_x = x, cfg_y = y\<rparr>"

definition configure_client :: "tray_client \<Rightarrow> request" where
  "configure_client s =
     ConfigureWindow (client s)
       \<lparr>cfg_width = size_w (m_size s), cfg_height = size_h (m_size s), cfg_x = 0, cfg_y = 0\<rparr>"

text \<open>The requests for a background slice among the issued ones.\<close>

fun is_observe :: "request \<Rightarrow> bool" where
  "is_observe (Observe rect win) = True"
| "is_observe _ = False"

definition refreshes :: "request list \<Rightarrow> request list" where
  "refreshes rs = filter is_observe rs"

text \<open>The value that the last call of the setter \<open>mapped(bool)\<close> in a run has stored.\<close>

fun last_set_mapped :: "bool \<Rightarrow> operation list \<Rightarrow> bool" where
  "last_set_mapped m [] = m"
| "last_set_mapped m (OpSetMapped b # ops) = last_set_mapped b ops"
| "last_set_mapped m (_ # ops) = last_set_mapped m ops"

subsection \<open>An icon for the examples\<close>

text \<open>
  A connection on which nothing has been issued, and an environment whose server rejects
  the requests that \<open>failing\<close> names: the icon window 5 is 16 by 16 at depth 24, and the
  ids handed out are 7, 8 and 9.
\<close>

definition idle :: connection where
  "idle = \<lparr>requests = [], ids_made = 0\<rparr>"

definition demo_env :: "(request \<Rightarrow> bool) \<Rightarrow> xenv" where
  "demo_env failing =
     \<lparr>fails = (\<lambda>rs r. failing r),
      generate_id = (\<lambda>n. if n = 0 then 7 else if n = 1 then 8 else 9),
      get_geometry = (\<lambda>rs win. Some \<lparr>geom_depth = 24, geom_width = 16, geom_height = 16\<rparr>),
      get_window_attributes = (\<lambda>rs win. Some \<lparr>attr_visual = 33, attr_colormap = 32\<rparr>),
      visual_type_for_id = (\<lambda>v. Some v),
      get_wm_name = (\<lambda>win. ''icon''),
      id_string = (\<lambda>win. ''0x5''),
      root = 1,
      black_pixel = 0,
      xembed_query = (\<lambda>rs win i. (i, False)),
      observe = (\<lambda>rs rect win. length rs)\<rparr>"

definition demo_defaults :: member_defaults where
  "demo_defaults =
     \<lparr>d_xembed_supported = False,
      d_xembed = \<lparr>info_version = 0, info_mapped = False\<rparr>,
      d_mapped = False,
      d_hidden = False,
      d_pos = \<lparr>pos_x = 0, pos_y = 0\<rparr>\<rparr>"

definition demo_surface :: xcb_surface where
  "demo_surface = \<lparr>surf_pixmap = 8, surf_visual = 33, surf_w = 22, surf_h = 22\<rparr>"

text \<open>
  The entity that the constructor returns for the icon 5, the parent 3, the size 22 by 22
  and the background \<open>0xFF202020\<close> in that environment when no request fails.
\<close>

definition demo_client :: tray_client where
  "demo_client =
     \<lparr>m_name = ''icon'',
      m_client = 5,
      m_wrapper = 7,
      m_size = \<lparr>size_w = 22, size_h = 22\<rparr>,
      m_desired_background = 4280295456,
      m_xembed_supported = False,
      m_xembed = \<lparr>info_version = 0, info_mapped = False\<rparr>,
      m_mapped = False,
      m_hidden = False,
      m_pos = \<lparr>pos_x = 0, pos_y = 0\<rparr>,
      m_surface = demo_surface,
      m_context = Context demo_surface,
      m_bg_slice = Some 6\<rparr>"

text \<open>What that construction leaves on the connection.\<close>

definition demo_conn :: connection where
  "demo_conn =
     \<lparr>requests =
        [GetGeometry 5, GetWindowAttributes 5,
         CreateWindow 7
          \<lparr>cw_size_w = 22, cw_size_h = 22, cw_pos_x = 0, cw_pos_y = 0,
           cw_depth = 24, cw_visual = 33, cw_parent = 3, cw_class = 1,
           cw_params_border_pixel = 0, cw_params_backing_store = 1,
           cw_params_save_under = True, cw_params_event_mask = 5406720,
           cw_params_colormap = 32, cw_flush = True\<rparr>,
         CreatePixmap 24 8 7 22 22, ChangeWindowAttributes 7 [BackPixmap 8],
         CreateGC 9 8 1,
         Observe \<lparr>rect_x = 0, rect_y = 0, rect_width = 22, rect_height = 22\<rparr> 7,
         CairoClear, CairoOperator CAIRO_OPERATOR_SOURCE,
         CairoSource (SliceSurface 6), CairoPaint,
         CairoOperator CAIRO_OPERATOR_OVER, CairoSource (Colour 4280295456),
         CairoPaint, SurfaceFlush, ClearArea 0 7 0 0 22 22,
         ClearArea 1 5 0 0 22 22, Flush],
      ids_made = 3\<rparr>"

section \<open>Properties\<close>

lemmas prims = checked_def send_def issue_def

subsection \<open>What each method leaves of the entity\<close>

lemma lift_entity: "fst (snd (lift f s c)) = s"
  by (simp add: lift_def split: prod.splits)

lemma observe_background_entity:
  "fst (snd (observe_background env s c)) =
     s\<lparr>m_bg_slice := Some (observe env (requests c) (observe_rect s) (embedder s))\<rparr>"
  by (simp add: observe_background_def Let_def split: prod.splits)

lemma set_position_entity:
  "fst (snd (set_position env x y s c)) =
     (if \<lparr>pos_x = x, pos_y = y\<rparr> = m_pos s then s
      else if fails env (requests c) (configure_embedder s x y)
              \<or> fails env (requests c @ [configure_embedder s x y]) (configure_client s)
        then s\<lparr>m_pos := \<lparr>pos_x = x, pos_y = y\<rparr>\<rparr>
        else s\<lparr>m_pos := \<lparr>pos_x = x, pos_y = y\<rparr>,
               m_bg_slice := Some (observe env
                 (requests c @ [configure_embedder s x y, configure_client s])
                 (observe_rect s) (embedder s))\<rparr>)"
  by (simp add: set_position_def Let_def prims observe_background_entity
        configure_embedder_def configure_client_def embedder_def client_def observe_rect_def)

lemma query_xembed_mapped: "m_mapped (fst (snd (query_xembed env s c))) = m_mapped s"
  by (simp add: query_xembed_def prims split: prod.splits)


lemma step_mapped:
  "m_mapped (fst (snd (step env op (s, c)))) =
     (case op of OpSetMapped b \<Rightarrow> b | _ \<Rightarrow> m_mapped s)"
  by (cases op)
     (simp_all add: lift_entity observe_background_entity set_position_entity
        query_xembed_mapped mapped_set_def hidden_def)


lemma last_set_mapped_Cons:
  "last_set_mapped m (op # ops) =
     last_set_mapped (case op of OpSetMapped b \<Rightarrow> b | _ \<Rightarrow> m) ops"
  by (cases op) simp_all

lemma run_mapped:
  "m_mapped (fst (run env ops sc)) = last_set_mapped (m_mapped (fst sc)) ops"
proof (induction ops arbitrary: sc)
  case Nil
  show ?case by simp
next
  case (Cons op ops)
  obtain s c where sc: "sc = (s, c)" by (cases sc)
  obtain r s' c' where st: "step env op (s, c) = (r, s', c')" by (cases "step env op (s, c)")
  have "m_mapped s' = (case op of OpSetMapped b \<Rightarrow> b | _ \<Rightarrow> m_mapped s)"
    using step_mapped [of env op s c] st by simp
  then show ?case
    using Cons.IH [of "(s', c')"] sc st by (simp add: last_set_mapped_Cons del: last_set_mapped.simps)
qed


lemma query_xembed_frame:
  "m_wrapper (fst (snd (query_xembed env s c))) = m_wrapper s"
  "m_size (fst (snd (query_xembed env s c))) = m_size s"
  by (simp_all add: query_xembed_def prims split: prod.splits)


lemma step_size: "m_size (fst (snd (step env op (s, c)))) = m_size s"
  by (cases op)
     (simp_all add: lift_entity observe_background_entity set_position_entity
        query_xembed_frame mapped_set_def hidden_def)


lemma run_size: "m_size (fst (run env ops sc)) = m_size (fst sc)"
proof (induction ops arbitrary: sc)
  case Nil
  show ?case by simp
next
  case (Cons op ops)
  obtain s c where sc: "sc = (s, c)" by (cases sc)
  obtain r s' c' where st: "step env op (s, c) = (r, s', c')" by (cases "step env op (s, c)")
  have "m_size s' = m_size s"
    using step_size [of env op s c] st by simp
  then show ?case
    using Cons.IH [of "(s', c')"] sc st by simp
qed

subsection \<open>What construction and the background refresh issue\<close>

lemma geometries_append: "geometries (rs @ rs') = geometries rs @ geometries rs'"
  by (simp add: geometries_def map_filter_def)

lemma geometries_Nil: "geometries [] = []"
  by (simp add: geometries_def map_filter_def)

lemma geometries_Cons:
  "geometries (r # rs) = (case geometry_of r of None \<Rightarrow> geometries rs | Some g \<Rightarrow> g # geometries rs)"
  by (simp add: geometries_def map_filter_def split: option.splits)

lemma refreshes_append: "refreshes (rs @ rs') = refreshes rs @ refreshes rs'"
  by (simp add: refreshes_def)

lemma update_bg_geometries:
  "geometries (requests (snd (update_bg env s c))) = geometries (requests c)"
  by (cases "m_bg_slice s")
     (simp_all add: update_bg_def clear_window_def prims geometries_append geometries_Cons geometries_Nil)

lemma update_bg_refreshes:
  "refreshes (requests (snd (update_bg env s c))) = refreshes (requests c)"
  by (cases "m_bg_slice s")
     (simp_all add: update_bg_def clear_window_def prims refreshes_def)

lemma observe_background_result:
  assumes "observe_background env s c = (r, s', c')"
  shows "s' = s\<lparr>m_bg_slice := Some (observe env (requests c) (observe_rect s) (embedder s))\<rparr>"
    and "geometries (requests c') = geometries (requests c)"
    and "refreshes (requests c') = refreshes (requests c) @ [Observe (observe_rect s) (embedder s)]"
    and "(r, c') = update_bg env s' (issue (Observe (observe_rect s) (embedder s)) c)"
proof -
  let ?s = "s\<lparr>m_bg_slice := Some (observe env (requests c) (observe_rect s) (embedder s))\<rparr>"
  let ?c = "issue (Observe (observe_rect s) (embedder s)) c"
  have eq: "observe_background env s c = (fst (update_bg env ?s ?c), ?s, snd (update_bg env ?s ?c))"
    by (simp add: observe_background_def Let_def split: prod.splits)
  have r: "r = fst (update_bg env ?s ?c)"
    using assms eq by (metis fst_conv)
  have s': "s' = ?s"
    using assms eq by (metis fst_conv snd_conv)
  have c': "c' = snd (update_bg env ?s ?c)"
    using assms eq by (metis snd_conv)
  show "s' = ?s" by (rule s')
  show "geometries (requests c') = geometries (requests c)"
    by (simp add: c' update_bg_geometries issue_def geometries_append geometries_Cons geometries_Nil)
  show "refreshes (requests c') = refreshes (requests c) @ [Observe (observe_rect s) (embedder s)]"
    by (simp add: c' update_bg_refreshes) (simp add: issue_def refreshes_def)
  show "(r, c') = update_bg env s' ?c"
    by (simp add: r s' c')
qed

lemma observe_background_frame:
  "observe_background env s c = (r, s', c') \<Longrightarrow>
   s' = s\<lparr>m_bg_slice := Some (observe env (requests c) (observe_rect s) (embedder s))\<rparr>
   \<and> geometries (requests c') = geometries (requests c)"
  using observe_background_result(1,2) by blast

lemma ctor_result:
  assumes "tray_client_ctor env d parent win sz bg c = (Inr s, c')"
  shows "m_client s = win" and "m_size s = sz"
    and "geometries (requests c') = geometries (requests c) @ [(m_wrapper s, size_w sz, size_h sz, 0, 0)]"
    and "m_wrapper s = generate_id env (ids_made c)"
  using assms
  by (auto simp add: tray_client_ctor_def Let_def winspec_create_def prims
        geometries_append geometries_Cons geometries_Nil
      split: option.splits prod.splits if_splits
      dest!: observe_background_frame)

lemma observe_background_geometries:
  "geometries (requests (snd (snd (observe_background env s c)))) = geometries (requests c)"
  by (cases "observe_background env s c") (simp add: observe_background_result(2))

lemma observe_background_refreshes:
  "refreshes (requests (snd (snd (observe_background env s c)))) =
     refreshes (requests c) @ [Observe (observe_rect s) (embedder s)]"
  by (cases "observe_background env s c") (simp add: observe_background_result(3))

lemma set_position_geometries:
  "geometries (requests (snd (snd (set_position env x y s c)))) =
     geometries (requests c) @
       (if \<lparr>pos_x = x, pos_y = y\<rparr> = m_pos s then []
        else (embedder s, width s, height s, x, y) #
             (if fails env (requests c) (configure_embedder s x y) then []
              else [(client s, width s, height s, 0, 0)]))"
  by (simp add: set_position_def Let_def prims observe_background_geometries
        geometries_append geometries_Cons geometries_Nil
        configure_embedder_def embedder_def client_def width_def height_def)

lemma demo_ctor:
  "tray_client_ctor (demo_env (\<lambda>r. False)) demo_defaults 3 5 \<lparr>size_w = 22, size_h = 22\<rparr>
     4280295456 idle = (Inr demo_client, demo_conn)"
  by (simp add: tray_client_ctor_def demo_env_def demo_defaults_def idle_def prims
       winspec_create_def observe_background_def update_bg_def clear_window_def
       observe_rect_def embedder_def client_def width_def height_def demo_client_def
       demo_surface_def demo_conn_def Let_def
       XCB_WINDOW_CLASS_INPUT_OUTPUT_def XCB_BACKING_STORE_WHEN_MAPPED_def
       XCB_EVENT_MASK_EXPOSURE_def XCB_EVENT_MASK_STRUCTURE_NOTIFY_def
       XCB_EVENT_MASK_SUBSTRUCTURE_REDIRECT_def XCB_EVENT_MASK_PROPERTY_CHANGE_def)

lemma demo_ctor_unembed:
  "tray_client_ctor (demo_env (\<lambda>r. r = XembedUnembed 5 1)) demo_defaults 3 5 \<lparr>size_w = 22, size_h = 22\<rparr>
     4280295456 idle = (Inr demo_client, demo_conn)"
  by (simp add: tray_client_ctor_def demo_env_def demo_defaults_def idle_def prims
       winspec_create_def observe_background_def update_bg_def clear_window_def
       observe_rect_def embedder_def client_def width_def height_def demo_client_def
       demo_surface_def demo_conn_def Let_def
       XCB_WINDOW_CLASS_INPUT_OUTPUT_def XCB_BACKING_STORE_WHEN_MAPPED_def
       XCB_EVENT_MASK_EXPOSURE_def XCB_EVENT_MASK_STRUCTURE_NOTIFY_def
       XCB_EVENT_MASK_SUBSTRUCTURE_REDIRECT_def XCB_EVENT_MASK_PROPERTY_CHANGE_def)

subsection \<open>Visibility policy\<close>

text \<open>
  C3: \<open>should_be_mapped()\<close> is false whenever the hidden flag is set; otherwise, if the
  embedding protocol is supported, it is the mapped bit of the cached protocol info;
  otherwise it is true.
\<close>

theorem should_be_mapped_policy:
  "(m_hidden s \<longrightarrow> \<not> should_be_mapped s)
   \<and> (\<not> m_hidden s \<and> is_xembed_supported s \<longrightarrow> should_be_mapped s = is_mapped (m_xembed s))
   \<and> (\<not> m_hidden s \<and> \<not> is_xembed_supported s \<longrightarrow> should_be_mapped s)"
  by (simp add: should_be_mapped_def)

theorem should_be_mapped_policy_witness:
  "m_hidden (hidden True demo_client) \<and> \<not> should_be_mapped (hidden True demo_client)
   \<and> \<not> m_hidden demo_client \<and> \<not> is_xembed_supported demo_client \<and> should_be_mapped demo_client
   \<and> \<not> m_hidden (demo_client\<lparr>m_xembed_supported := True\<rparr>)
   \<and> is_xembed_supported (demo_client\<lparr>m_xembed_supported := True\<rparr>)
   \<and> should_be_mapped (demo_client\<lparr>m_xembed_supported := True\<rparr>) = False"
  using should_be_mapped_policy [of "hidden True demo_client"]
        should_be_mapped_policy [of demo_client]
        should_be_mapped_policy [of "demo_client\<lparr>m_xembed_supported := True\<rparr>"]
  by (simp add: hidden_def demo_client_def is_xembed_supported_def is_mapped_def)

subsection \<open>The mapped flag\<close>

text \<open>
  C2 (as the code has it): the stored mapped flag is changed only by the setter
  \<open>mapped(bool)\<close>. After any run of operations the flag holds the value that the last call
  of the setter stored, or its initial value when the setter was not called; a single
  operation leaves the flag as it is unless it is the setter, which stores its argument;
  and \<open>ensure_state\<close> in particular leaves the flag as it is.
\<close>

theorem mapped_flag_setter_only:
  "m_mapped (fst (run env ops (s, c))) = last_set_mapped (m_mapped s) ops
   \<and> m_mapped (fst (snd (step env op (s, c)))) =
       (case op of OpSetMapped b \<Rightarrow> b | _ \<Rightarrow> m_mapped s)
   \<and> m_mapped (fst (snd (step env OpEnsureState (s, c)))) = m_mapped s"
  using run_mapped [of env ops "(s, c)"] step_mapped [of env op s c]
        step_mapped [of env OpEnsureState s c]
  by simp

theorem mapped_flag_setter_only_witness:
  "m_mapped (fst (run (demo_env (\<lambda>r. False))
      [OpEnsureState, OpSetMapped True, OpSetHidden True, OpEnsureState] (demo_client, idle)))"
  using mapped_flag_setter_only [of "demo_env (\<lambda>r. False)"
          "[OpEnsureState, OpSetMapped True, OpSetHidden True, OpEnsureState]" demo_client idle
          OpEnsureState]
  by simp

text \<open>
  C2 as stated fails: on the demo icon, whose flag is false while it should be mapped, the
  setter changes the flag directly, and \<open>ensure_state\<close>, which issues the transition, leaves
  the flag unchanged.
\<close>

theorem mapped_flag_only_sync_counterexample:
  "m_mapped (fst (snd (step (demo_env (\<lambda>r. False)) (OpSetMapped True) (demo_client, idle))))
     \<noteq> m_mapped demo_client
   \<and> should_be_mapped demo_client \<noteq> m_mapped demo_client
   \<and> m_mapped (fst (snd (step (demo_env (\<lambda>r. False)) OpEnsureState (demo_client, idle))))
     = m_mapped demo_client"
  by (simp add: lift_entity mapped_set_def demo_client_def should_be_mapped_def is_xembed_supported_def)

subsection \<open>Synchronising the visibility\<close>

lemma should_be_mapped_mapped_set: "should_be_mapped (mapped_set b s) = should_be_mapped s"
  by (simp add: should_be_mapped_def mapped_set_def is_xembed_supported_def)

lemma m_mapped_mapped_set: "m_mapped (mapped_set b s) = b"
  by (simp add: mapped_set_def)

text \<open>
  C1 (as the code has it): \<open>ensure_state\<close> is a no-op when \<open>should_be_mapped()\<close> equals the
  stored mapped flag. Otherwise it issues the transition and nothing else: to map, the
  request for the embedder and then, when that has not thrown, the request for the client;
  to unmap, the request for the client and then, when that has not thrown, the request for
  the embedder; the call ends with the error of the request that has thrown, if one has.
  In every case the entity, the stored flag included, is left unchanged: the flag is the
  business of the setter \<open>mapped(bool)\<close>. Once the setter has stored the value of
  \<open>should_be_mapped()\<close>, a call of \<open>ensure_state\<close> issues nothing.
\<close>

theorem ensure_state_sync:
  "(should_be_mapped s = m_mapped s \<longrightarrow> step env OpEnsureState (s, c) = (None, s, c))
   \<and> (should_be_mapped s \<noteq> m_mapped s \<longrightarrow>
        step env OpEnsureState (s, c) =
          (if should_be_mapped s
           then if fails env (requests c) (MapWindow (embedder s))
             then (Some (RequestFailed (MapWindow (embedder s))), s,
                   c\<lparr>requests := requests c @ [MapWindow (embedder s)]\<rparr>)
             else (if fails env (requests c @ [MapWindow (embedder s)]) (MapWindow (client s))
                   then Some (RequestFailed (MapWindow (client s))) else None,
                   s,
                   c\<lparr>requests := requests c @ [MapWindow (embedder s), MapWindow (client s)]\<rparr>)
           else if fails env (requests c) (UnmapWindow (client s))
             then (Some (RequestFailed (UnmapWindow (client s))), s,
                   c\<lparr>requests := requests c @ [UnmapWindow (client s)]\<rparr>)
             else (if fails env (requests c @ [UnmapWindow (client s)]) (UnmapWindow (embedder s))
                   then Some (RequestFailed (UnmapWindow (embedder s))) else None,
                   s,
                   c\<lparr>requests := requests c @ [UnmapWindow (client s), UnmapWindow (embedder s)]\<rparr>)))
   \<and> step env OpEnsureState (mapped_set (should_be_mapped s) s, c)
       = (None, mapped_set (should_be_mapped s) s, c)"
proof (intro conjI impI)
  assume "should_be_mapped s = m_mapped s"
  then show "step env OpEnsureState (s, c) = (None, s, c)"
    by (simp add: lift_def ensure_state_def)
next
  assume differ: "should_be_mapped s \<noteq> m_mapped s"
  show "step env OpEnsureState (s, c) =
          (if should_be_mapped s
           then if fails env (requests c) (MapWindow (embedder s))
             then (Some (RequestFailed (MapWindow (embedder s))), s,
                   c\<lparr>requests := requests c @ [MapWindow (embedder s)]\<rparr>)
             else (if fails env (requests c @ [MapWindow (embedder s)]) (MapWindow (client s))
                   then Some (RequestFailed (MapWindow (client s))) else None,
                   s,
                   c\<lparr>requests := requests c @ [MapWindow (embedder s), MapWindow (client s)]\<rparr>)
           else if fails env (requests c) (UnmapWindow (client s))
             then (Some (RequestFailed (UnmapWindow (client s))), s,
                   c\<lparr>requests := requests c @ [UnmapWindow (client s)]\<rparr>)
             else (if fails env (requests c @ [UnmapWindow (client s)]) (UnmapWindow (embedder s))
                   then Some (RequestFailed (UnmapWindow (embedder s))) else None,
                   s,
                   c\<lparr>requests := requests c @ [UnmapWindow (client s), UnmapWindow (embedder s)]\<rparr>))"
  proof (cases "should_be_mapped s")
    case True
    with differ show ?thesis
      by (simp add: lift_def ensure_state_def prims)
  next
    case False
    with differ show ?thesis
      by (simp add: lift_def ensure_state_def prims)
  qed
next
  show "step env OpEnsureState (mapped_set (should_be_mapped s) s, c)
       = (None, mapped_set (should_be_mapped s) s, c)"
    by (simp add: lift_def ensure_state_def should_be_mapped_mapped_set m_mapped_mapped_set)
qed

theorem ensure_state_sync_witness:
  "should_be_mapped demo_client \<noteq> m_mapped demo_client
   \<and> step (demo_env (\<lambda>r. False)) OpEnsureState (demo_client, idle)
       = (None, demo_client, \<lparr>requests = [MapWindow 7, MapWindow 5], ids_made = 0\<rparr>)
   \<and> step (demo_env (\<lambda>r. r = MapWindow 5)) OpEnsureState (demo_client, idle)
       = (Some (RequestFailed (MapWindow 5)), demo_client,
          \<lparr>requests = [MapWindow 7, MapWindow 5], ids_made = 0\<rparr>)
   \<and> should_be_mapped (hidden True (mapped_set True demo_client))
        \<noteq> m_mapped (hidden True (mapped_set True demo_client))
   \<and> step (demo_env (\<lambda>r. True)) OpEnsureState (hidden True (mapped_set True demo_client), idle)
       = (Some (RequestFailed (UnmapWindow 5)), hidden True (mapped_set True demo_client),
          \<lparr>requests = [UnmapWindow 5], ids_made = 0\<rparr>)
   \<and> should_be_mapped (mapped_set True demo_client) = m_mapped (mapped_set True demo_client)
   \<and> step (demo_env (\<lambda>r. False)) OpEnsureState (mapped_set True demo_client, idle)
       = (None, mapped_set True demo_client, idle)"
  using ensure_state_sync [of demo_client "demo_env (\<lambda>r. False)" idle]
        ensure_state_sync [of demo_client "demo_env (\<lambda>r. r = MapWindow 5)" idle]
        ensure_state_sync [of "hidden True (mapped_set True demo_client)" "demo_env (\<lambda>r. True)" idle]
        ensure_state_sync [of "mapped_set True demo_client" "demo_env (\<lambda>r. False)" idle]
  by (simp add: demo_client_def demo_env_def idle_def should_be_mapped_def is_xembed_supported_def
        mapped_set_def hidden_def embedder_def client_def)

text \<open>
  C1 as stated fails: two calls of \<open>ensure_state\<close> in a row on the demo icon, with no
  request failing and nothing changed in between, issue the two map requests twice, and the
  flag is false after both.
\<close>

theorem ensure_state_idempotent_counterexample:
  "should_be_mapped demo_client \<and> \<not> m_mapped demo_client
   \<and> step (demo_env (\<lambda>r. False)) OpEnsureState (demo_client, idle)
       = (None, demo_client, \<lparr>requests = [MapWindow 7, MapWindow 5], ids_made = 0\<rparr>)
   \<and> step (demo_env (\<lambda>r. False)) OpEnsureState
        (demo_client, \<lparr>requests = [MapWindow 7, MapWindow 5], ids_made = 0\<rparr>)
       = (None, demo_client,
          \<lparr>requests = [MapWindow 7, MapWindow 5, MapWindow 7, MapWindow 5], ids_made = 0\<rparr>)"
  by (simp add: lift_def ensure_state_def prims demo_client_def demo_env_def idle_def
        should_be_mapped_def is_xembed_supported_def embedder_def client_def)

subsection \<open>Order of mapping and unmapping\<close>

text \<open>
  C5: when \<open>ensure_state\<close> changes the visibility, it asks for the container (embedder) to
  be mapped before the icon, and for the icon to be unmapped before the container. The
  second request of either pair is issued only when the first one has not thrown, so the
  icon is never shown ahead of its container, and the container never hidden ahead of the
  icon.
\<close>

theorem ensure_state_order:
  "should_be_mapped s \<noteq> m_mapped s \<Longrightarrow>
   requests (snd (ensure_state env s c)) =
     requests c @
       (if should_be_mapped s
        then MapWindow (embedder s) #
             (if fails env (requests c) (MapWindow (embedder s)) then [] else [MapWindow (client s)])
        else UnmapWindow (client s) #
             (if fails env (requests c) (UnmapWindow (client s)) then [] else [UnmapWindow (embedder s)]))"
  by (simp add: ensure_state_def prims)

theorem ensure_state_order_witness:
  "should_be_mapped demo_client \<noteq> m_mapped demo_client
   \<and> requests (snd (ensure_state (demo_env (\<lambda>r. False)) demo_client idle)) = [MapWindow 7, MapWindow 5]
   \<and> should_be_mapped (hidden True (mapped_set True demo_client))
        \<noteq> m_mapped (hidden True (mapped_set True demo_client))
   \<and> requests (snd (ensure_state (demo_env (\<lambda>r. False)) (hidden True (mapped_set True demo_client)) idle))
        = [UnmapWindow 5, UnmapWindow 7]"
  using ensure_state_order [of demo_client "demo_env (\<lambda>r. False)" idle]
        ensure_state_order [of "hidden True (mapped_set True demo_client)" "demo_env (\<lambda>r. False)" idle]
  by (simp add: demo_client_def demo_env_def idle_def should_be_mapped_def hidden_def
        mapped_set_def is_xembed_supported_def embedder_def client_def)

subsection \<open>Destruction\<close>

text \<open>
  C4 (as the code has it): the destructor calls \<open>xembed::unembed\<close> for the client (when its
  handle is not \<open>XCB_NONE\<close>) and then destroys the embedder (when its handle is not
  \<open>XCB_NONE\<close>). It has no handler of its own. When \<open>unembed\<close> throws, the exception leaves
  the destructor and the embedder is not destroyed. Otherwise the destructor completes
  without an error and the embedder is destroyed; \<open>destroy_window\<close> is not a checked
  request, so a failure of it is never thrown.
\<close>

theorem dtor_steps:
  "tray_client_dtor env s c =
     (if m_client s \<noteq> XCB_NONE \<and> fails env (requests c) (XembedUnembed (m_client s) (root env))
      then (Some (RequestFailed (XembedUnembed (m_client s) (root env))),
            c\<lparr>requests := requests c @ [XembedUnembed (m_client s) (root env)]\<rparr>)
      else (None,
            c\<lparr>requests := requests c
               @ (if m_client s \<noteq> XCB_NONE then [XembedUnembed (m_client s) (root env)] else [])
               @ (if m_wrapper s \<noteq> XCB_NONE then [DestroyWindow (m_wrapper s)] else [])\<rparr>))"
  by (simp add: tray_client_dtor_def prims)

theorem dtor_steps_witness:
  "tray_client_dtor (demo_env (\<lambda>r. r = DestroyWindow 7)) demo_client idle
     = (None, \<lparr>requests = [XembedUnembed 5 1, DestroyWindow 7], ids_made = 0\<rparr>)
   \<and> tray_client_dtor (demo_env (\<lambda>r. r = XembedUnembed 5 1)) demo_client idle
     = (Some (RequestFailed (XembedUnembed 5 1)),
        \<lparr>requests = [XembedUnembed 5 1], ids_made = 0\<rparr>)"
  using dtor_steps [of "demo_env (\<lambda>r. r = DestroyWindow 7)" demo_client idle]
        dtor_steps [of "demo_env (\<lambda>r. r = XembedUnembed 5 1)" demo_client idle]
  by (simp add: demo_client_def demo_env_def idle_def XCB_NONE_def)

text \<open>
  C4 as stated fails: the demo icon is constructed on a server that answers the call of
  \<open>unembed\<close> with an error. The destructor of the constructed entity ends with that error,
  and no request to destroy the embedder 7 has been issued.
\<close>

theorem dtor_unconditional_counterexample:
  "tray_client_ctor (demo_env (\<lambda>r. r = XembedUnembed 5 1)) demo_defaults 3 5
     \<lparr>size_w = 22, size_h = 22\<rparr> 4280295456 idle = (Inr demo_client, demo_conn)
   \<and> tray_client_dtor (demo_env (\<lambda>r. r = XembedUnembed 5 1)) demo_client demo_conn
     = (Some (RequestFailed (XembedUnembed 5 1)),
        demo_conn\<lparr>requests := requests demo_conn @ [XembedUnembed 5 1]\<rparr>)
   \<and> DestroyWindow 7 \<notin> set (requests demo_conn @ [XembedUnembed 5 1])"
  by (simp add: demo_ctor_unembed)
     (simp add: tray_client_dtor_def prims demo_client_def demo_env_def demo_conn_def XCB_NONE_def)

subsection \<open>Geometry\<close>

text \<open>
  C6 (as the code has it): the constructor creates the embedder with the target size at
  (0, 0) and issues no geometry request for the client window. A call of \<open>set_position\<close>
  with a changed position configures the embedder at the new position and, when that
  request has not thrown, the client at offset (0, 0), both with the stored target size; a
  call with the cached position configures nothing. No operation changes the stored
  size.
\<close>

theorem geometry_requests:
  "(tray_client_ctor env d parent win sz bg c = (Inr s0, c0) \<longrightarrow>
      geometries (requests c0) = geometries (requests c) @ [(embedder s0, size_w sz, size_h sz, 0, 0)]
      \<and> width s0 = size_w sz \<and> height s0 = size_h sz)
   \<and> geometries (requests (snd (snd (set_position env x y s c1)))) =
       geometries (requests c1) @
         (if \<lparr>pos_x = x, pos_y = y\<rparr> = m_pos s then []
          else (embedder s, width s, height s, x, y) #
               (if fails env (requests c1) (configure_embedder s x y) then []
                else [(client s, width s, height s, 0, 0)]))
   \<and> m_size (fst (run env ops (s, c1))) = m_size s"
  using ctor_result(2,3) [of env d parent win sz bg c s0 c0]
        set_position_geometries [of env x y s c1] run_size [of env ops "(s, c1)"]
  by (simp add: embedder_def width_def height_def)

theorem geometry_requests_witness:
  "tray_client_ctor (demo_env (\<lambda>r. False)) demo_defaults 3 5 \<lparr>size_w = 22, size_h = 22\<rparr>
     4280295456 idle = (Inr demo_client, demo_conn)
   \<and> geometries (requests demo_conn) = [(7, 22, 22, 0, 0)]
   \<and> \<lparr>pos_x = 5, pos_y = 5\<rparr> \<noteq> m_pos demo_client
   \<and> geometries (requests (snd (snd (set_position (demo_env (\<lambda>r. False)) 5 5 demo_client demo_conn))))
       = [(7, 22, 22, 0, 0), (7, 22, 22, 5, 5), (5, 22, 22, 0, 0)]"
proof -
  have g: "geometries (requests idle) = []"
    by (simp add: idle_def geometries_Nil)
  have p: "\<lparr>pos_x = 5, pos_y = 5\<rparr> \<noteq> m_pos demo_client"
    by (simp add: demo_client_def)
  have f: "\<not> fails (demo_env (\<lambda>r. False)) (requests demo_conn) (configure_embedder demo_client 5 5)"
    by (simp add: demo_env_def)
  have v: "embedder demo_client = 7" "client demo_client = 5"
    "width demo_client = 22" "height demo_client = 22"
    by (simp_all add: embedder_def client_def width_def height_def demo_client_def)
  show ?thesis
    using geometry_requests [of "demo_env (\<lambda>r. False)" demo_defaults 3 5
            "\<lparr>size_w = 22, size_h = 22\<rparr>" 4280295456 idle demo_client demo_conn
            5 5 demo_client demo_conn "[]"]
          demo_ctor g p f v
    by simp
qed

text \<open>
  C6 as stated fails: after the construction of the demo icon the embedder is 22 by 22,
  while nothing has been configured for the client window 5, which the server reports as
  16 by 16; and \<open>set_position(0, 0)\<close>, the cached position, issues nothing.
\<close>

theorem sizes_equal_after_construction_counterexample:
  "tray_client_ctor (demo_env (\<lambda>r. False)) demo_defaults 3 5 \<lparr>size_w = 22, size_h = 22\<rparr>
     4280295456 idle = (Inr demo_client, demo_conn)
   \<and> client demo_client = 5 \<and> embedder demo_client = 7
   \<and> geometries (requests demo_conn) = [(7, 22, 22, 0, 0)]
   \<and> get_geometry (demo_env (\<lambda>r. False)) (requests idle) 5
       = Some \<lparr>geom_depth = 24, geom_width = 16, geom_height = 16\<rparr>
   \<and> set_position (demo_env (\<lambda>r. False)) 0 0 demo_client demo_conn = (None, demo_client, demo_conn)"
  by (simp add: demo_ctor client_def embedder_def set_position_def)
     (simp add: demo_client_def demo_conn_def demo_env_def geometries_Cons geometries_Nil)

subsection \<open>Moving to a new position\<close>

text \<open>
  C7 (as the code has it): when \<open>set_position(x, y)\<close> changes the position and neither of
  its two configure requests throws, it asks the background manager for exactly one slice,
  for the rectangle at (0, 0) whose extent is the width and height converted to the 16-bit
  fields of the rectangle, keyed to the embedder; it stores the slice returned, and what
  follows is \<open>update_bg\<close> on the entity with the new slice.
\<close>

theorem set_position_refresh:
  "\<lparr>pos_x = x, pos_y = y\<rparr> \<noteq> m_pos s \<Longrightarrow>
   \<not> fails env (requests c) (configure_embedder s x y) \<Longrightarrow>
   \<not> fails env (requests c @ [configure_embedder s x y]) (configure_client s) \<Longrightarrow>
   refreshes (requests (snd (snd (set_position env x y s c)))) =
     refreshes (requests c) @
       [Observe \<lparr>rect_x = 0, rect_y = 0,
                 rect_width = ucast (width s), rect_height = ucast (height s)\<rparr> (embedder s)]
   \<and> fst (snd (set_position env x y s c)) =
       s\<lparr>m_pos := \<lparr>pos_x = x, pos_y = y\<rparr>,
         m_bg_slice := Some (observe env
           (requests c @ [configure_embedder s x y, configure_client s])
           (observe_rect s) (embedder s))\<rparr>
   \<and> (fst (set_position env x y s c), snd (snd (set_position env x y s c))) =
       update_bg env (fst (snd (set_position env x y s c)))
         (c\<lparr>requests := requests c @
              [configure_embedder s x y, configure_client s,
               Observe (observe_rect s) (embedder s)]\<rparr>)"
proof (intro conjI)
  assume new: "\<lparr>pos_x = x, pos_y = y\<rparr> \<noteq> m_pos s"
    and ok1: "\<not> fails env (requests c) (configure_embedder s x y)"
    and ok2: "\<not> fails env (requests c @ [configure_embedder s x y]) (configure_client s)"
  let ?s = "s\<lparr>m_pos := \<lparr>pos_x = x, pos_y = y\<rparr>\<rparr>"
  let ?c = "c\<lparr>requests := requests c @ [configure_embedder s x y, configure_client s]\<rparr>"
  have eq: "set_position env x y s c = observe_background env ?s ?c"
    using new ok1 ok2
    by (simp add: set_position_def Let_def prims configure_embedder_def configure_client_def
          embedder_def client_def)
  obtain r s' c' where ob: "observe_background env ?s ?c = (r, s', c')"
    by (cases "observe_background env ?s ?c")
  have rect: "observe_rect ?s = observe_rect s" and emb: "embedder ?s = embedder s"
    by (simp_all add: observe_rect_def embedder_def)
  show "refreshes (requests (snd (snd (set_position env x y s c)))) =
     refreshes (requests c) @
       [Observe \<lparr>rect_x = 0, rect_y = 0,
                 rect_width = ucast (width s), rect_height = ucast (height s)\<rparr> (embedder s)]"
    using observe_background_result(3) [OF ob]
    by (simp add: eq ob rect emb refreshes_append)
       (simp add: refreshes_def observe_rect_def width_def height_def
          configure_embedder_def configure_client_def)
  show "fst (snd (set_position env x y s c)) =
       s\<lparr>m_pos := \<lparr>pos_x = x, pos_y = y\<rparr>,
         m_bg_slice := Some (observe env
           (requests c @ [configure_embedder s x y, configure_client s])
           (observe_rect s) (embedder s))\<rparr>"
    using new ok1 ok2 by (simp add: set_position_entity)
  show "(fst (set_position env x y s c), snd (snd (set_position env x y s c))) =
       update_bg env (fst (snd (set_position env x y s c)))
         (c\<lparr>requests := requests c @
              [configure_embedder s x y, configure_client s,
               Observe (observe_rect s) (embedder s)]\<rparr>)"
    using observe_background_result(4) [OF ob] observe_background_result(1) [OF ob]
    by (simp add: eq ob rect emb issue_def)
qed

theorem set_position_refresh_witness:
  "\<lparr>pos_x = 5, pos_y = 5\<rparr> \<noteq> m_pos demo_client
   \<and> \<not> fails (demo_env (\<lambda>r. False)) (requests demo_conn) (configure_embedder demo_client 5 5)
   \<and> \<not> fails (demo_env (\<lambda>r. False)) (requests demo_conn @ [configure_embedder demo_client 5 5])
         (configure_client demo_client)
   \<and> refreshes (requests (snd (snd (set_position (demo_env (\<lambda>r. False)) 5 5 demo_client demo_conn))))
       = [Observe \<lparr>rect_x = 0, rect_y = 0, rect_width = 22, rect_height = 22\<rparr> 7,
          Observe \<lparr>rect_x = 0, rect_y = 0, rect_width = 22, rect_height = 22\<rparr> 7]
   \<and> m_bg_slice (fst (snd (set_position (demo_env (\<lambda>r. False)) 5 5 demo_client demo_conn))) = Some 20"
  using set_position_refresh [of 5 5 demo_client "demo_env (\<lambda>r. False)" demo_conn]
  by (simp add: demo_client_def demo_env_def demo_conn_def refreshes_def
        embedder_def width_def height_def)

text \<open>
  C7 as stated fails: when the first configure request throws, the position has changed
  but no slice is requested and the stored slice is the old one.
\<close>

theorem set_position_refresh_counterexample:
  "\<lparr>pos_x = 5, pos_y = 5\<rparr> \<noteq> m_pos demo_client
   \<and> refreshes (requests (snd (snd (set_position (demo_env (\<lambda>r. True)) 5 5 demo_client idle)))) = []
   \<and> m_bg_slice (fst (snd (set_position (demo_env (\<lambda>r. True)) 5 5 demo_client idle)))
       = m_bg_slice demo_client"
  by (simp add: set_position_def Let_def prims demo_client_def demo_env_def idle_def refreshes_def)

text \<open>
  C10: \<open>set_position(x, y)\<close> with a changed position stores the new position before it
  issues a request. Whatever happens afterwards, the entity holds the new position and so
  differs from the one before the call; when the first or the second configure request
  throws, the call ends with that error, the position already changed and nothing issued
  after the failed request.
\<close>

theorem set_position_not_atomic:
  "\<lparr>pos_x = x, pos_y = y\<rparr> \<noteq> m_pos s \<Longrightarrow>
   m_pos (fst (snd (set_position env x y s c))) = \<lparr>pos_x = x, pos_y = y\<rparr>
   \<and> fst (snd (set_position env x y s c)) \<noteq> s
   \<and> (fails env (requests c) (configure_embedder s x y) \<longrightarrow>
        set_position env x y s c =
          (Some (RequestFailed (configure_embedder s x y)),
           s\<lparr>m_pos := \<lparr>pos_x = x, pos_y = y\<rparr>\<rparr>,
           c\<lparr>requests := requests c @ [configure_embedder s x y]\<rparr>))
   \<and> (\<not> fails env (requests c) (configure_embedder s x y)
        \<and> fails env (requests c @ [configure_embedder s x y]) (configure_client s) \<longrightarrow>
        set_position env x y s c =
          (Some (RequestFailed (configure_client s)),
           s\<lparr>m_pos := \<lparr>pos_x = x, pos_y = y\<rparr>\<rparr>,
           c\<lparr>requests := requests c @ [configure_embedder s x y, configure_client s]\<rparr>))"
proof (intro conjI impI)
  assume new: "\<lparr>pos_x = x, pos_y = y\<rparr> \<noteq> m_pos s"
  show pos: "m_pos (fst (snd (set_position env x y s c))) = \<lparr>pos_x = x, pos_y = y\<rparr>"
    by (simp add: set_position_entity)
  show "fst (snd (set_position env x y s c)) \<noteq> s"
    using pos new by auto
next
  assume "\<lparr>pos_x = x, pos_y = y\<rparr> \<noteq> m_pos s"
    and "fails env (requests c) (configure_embedder s x y)"
  then show "set_position env x y s c =
          (Some (RequestFailed (configure_embedder s x y)),
           s\<lparr>m_pos := \<lparr>pos_x = x, pos_y = y\<rparr>\<rparr>,
           c\<lparr>requests := requests c @ [configure_embedder s x y]\<rparr>)"
    by (simp add: set_position_def Let_def prims configure_embedder_def embedder_def)
next
  assume "\<lparr>pos_x = x, pos_y = y\<rparr> \<noteq> m_pos s"
    and "\<not> fails env (requests c) (configure_embedder s x y)
        \<and> fails env (requests c @ [configure_embedder s x y]) (configure_client s)"
  then show "set_position env x y s c =
          (Some (RequestFailed (configure_client s)),
           s\<lparr>m_pos := \<lparr>pos_x = x, pos_y = y\<rparr>\<rparr>,
           c\<lparr>requests := requests c @ [configure_embedder s x y, configure_client s]\<rparr>)"
    by (simp add: set_position_def Let_def prims configure_embedder_def configure_client_def
          embedder_def client_def)
qed

theorem set_position_not_atomic_witness:
  "\<lparr>pos_x = 5, pos_y = 5\<rparr> \<noteq> m_pos demo_client
   \<and> fails (demo_env (\<lambda>r. True)) (requests idle) (configure_embedder demo_client 5 5)
   \<and> set_position (demo_env (\<lambda>r. True)) 5 5 demo_client idle =
       (Some (RequestFailed (ConfigureWindow 7
          \<lparr>cfg_width = 22, cfg_height = 22, cfg_x = 5, cfg_y = 5\<rparr>)),
        demo_client\<lparr>m_pos := \<lparr>pos_x = 5, pos_y = 5\<rparr>\<rparr>,
        \<lparr>requests = [ConfigureWindow 7
          \<lparr>cfg_width = 22, cfg_height = 22, cfg_x = 5, cfg_y = 5\<rparr>], ids_made = 0\<rparr>)
   \<and> \<not> fails (demo_env (\<lambda>r. r = configure_client demo_client)) (requests idle)
         (configure_embedder demo_client 5 5)
   \<and> fails (demo_env (\<lambda>r. r = configure_client demo_client))
         (requests idle @ [configure_embedder demo_client 5 5]) (configure_client demo_client)
   \<and> set_position (demo_env (\<lambda>r. r = configure_client demo_client)) 5 5 demo_client idle =
       (Some (RequestFailed (ConfigureWindow 5
          \<lparr>cfg_width = 22, cfg_height = 22, cfg_x = 0, cfg_y = 0\<rparr>)),
        demo_client\<lparr>m_pos := \<lparr>pos_x = 5, pos_y = 5\<rparr>\<rparr>,
        \<lparr>requests = [ConfigureWindow 7
          \<lparr>cfg_width = 22, cfg_height = 22, cfg_x = 5, cfg_y = 5\<rparr>,
          ConfigureWindow 5
          \<lparr>cfg_width = 22, cfg_height = 22, cfg_x = 0, cfg_y = 0\<rparr>], ids_made = 0\<rparr>)"
  using set_position_not_atomic [of 5 5 demo_client "demo_env (\<lambda>r. True)" idle]
        set_position_not_atomic [of 5 5 demo_client "demo_env (\<lambda>r. r = configure_client demo_client)" idle]
  by (simp add: demo_client_def demo_env_def idle_def configure_embedder_def configure_client_def
        embedder_def client_def)

subsection \<open>Moving to the position already held\<close>

text \<open>
  C8: \<open>set_position(x, y)\<close> with the cached position is a no-op: it returns without an
  error, the entity is unchanged and nothing is issued, neither a request to the window
  system nor a request for a background slice.
\<close>

theorem set_position_unchanged:
  "\<lparr>pos_x = x, pos_y = y\<rparr> = m_pos s \<Longrightarrow> set_position env x y s c = (None, s, c)"
  by (simp add: set_position_def)

theorem set_position_unchanged_witness:
  "\<lparr>pos_x = 0, pos_y = 0\<rparr> = m_pos demo_client
   \<and> set_position (demo_env (\<lambda>r. True)) 0 0 demo_client idle = (None, demo_client, idle)"
  using set_position_unchanged [of 0 0 demo_client "demo_env (\<lambda>r. True)" idle]
  by (simp add: demo_client_def)

subsection \<open>Matching a window\<close>



end
